theory Spec2Isabelle
  imports Complex_Main "HOL-Library.Multiset" "HOL-Library.Product_Lexorder"
begin

section \<open>Bookstore recommendations: the query and ranking core of app.py\<close>

text \<open>
  The development embeds the four data functions of \<^verbatim>\<open>app/app.py\<close>:
  \<^verbatim>\<open>get_book_rating\<close>, \<^verbatim>\<open>get_book_embedding\<close>, \<^verbatim>\<open>get_book_recommendations\<close> and
  \<^verbatim>\<open>get_rating_analytics\<close>, together with the SQL text each of them sends to the
  store and the values the database driver hands back.

  Conventions of the embedding.
  \<^item> Python's \<^verbatim>\<open>int\<close>, \<^verbatim>\<open>float\<close> and \<^verbatim>\<open>Decimal\<close> values keep their Python type as a
    constructor of \<open>pyval\<close>; a float or a Decimal is represented by the real number
    it denotes, so the rounding of binary floating point is not part of the model.
    The float NaN has a constructor of its own. A date is its day number.
  \<^item> A raised exception is the \<open>Inl\<close> side of a sum; the \<^verbatim>\<open>try/except\<close> of each
    function is the case distinction on that sum.
  \<^item> \<^verbatim>\<open>float\<close> on a string and \<^verbatim>\<open>str.strip()\<close> are built-ins of Python, not code of
    the repository: they are parameters of the functions that call them (the record
    \<open>python\<close>), and every theorem holds for all of them.
  \<^item> \<^verbatim>\<open>st.error(...)\<close> writes to the page; every function returns, next to its
    Python result, the list of the \<^verbatim>\<open>st.error\<close> calls it made.
\<close>

subsection \<open>Python values and exceptions\<close>

datatype pyval =
    PNone
  | PInt int
  | PFloat real
  | PNaN
  | PDecimal real
  | PStr string
  | PList "pyval list"
  | PDate int

datatype pyerror = IndexError | TypeError | ValueError | DatabaseError

text \<open>The text of an error banner (its ASCII part) and the exception it formats.\<close>

datatype st_event = st_error string pyerror

text \<open>Truth value testing, as \<^verbatim>\<open>if v:\<close> does it.\<close>

fun truthy :: "pyval \<Rightarrow> bool" where
  "truthy PNone = False"
| "truthy (PInt n) = (n \<noteq> 0)"
| "truthy (PFloat x) = (x \<noteq> 0)"
| "truthy PNaN = True"
| "truthy (PDecimal x) = (x \<noteq> 0)"
| "truthy (PStr s) = (s \<noteq> [])"
| "truthy (PList vs) = (vs \<noteq> [])"
| "truthy (PDate d) = True"

text \<open>\<^verbatim>\<open>row[i]\<close> for a constant index \<open>i \<ge> 0\<close> on a tuple delivered by the driver.\<close>

definition getitem :: "pyval list \<Rightarrow> nat \<Rightarrow> pyerror + pyval" where
  "getitem row i = (if i < length row then Inr (row ! i) else Inl IndexError)"

subsection \<open>Strings and the built-ins on them\<close>

text \<open>
  A string is the list of its characters. \<^verbatim>\<open>s.strip('[]')\<close> removes every leading and
  trailing bracket of either kind.
\<close>

definition strip_chars :: "(char \<Rightarrow> bool) \<Rightarrow> string \<Rightarrow> string" where
  "strip_chars p s = rev (dropWhile p (rev (dropWhile p s)))"

definition strip_brackets :: "string \<Rightarrow> string" where
  "strip_brackets s = strip_chars (\<lambda>c. c = CHR ''['' \<or> c = CHR '']'') s"

text \<open>\<^verbatim>\<open>s.split(sep)\<close> for a one-character separator; the result is never empty.\<close>

fun split :: "char \<Rightarrow> string \<Rightarrow> string list" where
  "split sep [] = [[]]"
| "split sep (c # cs) =
     (if c = sep then [] # split sep cs
      else (case split sep cs of
              [] \<Rightarrow> [[c]]
            | w # ws \<Rightarrow> (c # w) # ws))"

text \<open>
  Two built-ins of Python are not defined here but taken as parameters, so that every
  statement below holds for whatever they compute: \<^verbatim>\<open>s.strip()\<close>, which removes the
  white space around a string, is \<open>str_strip\<close>, and \<^verbatim>\<open>float(s)\<close> on a string is
  \<open>str_float\<close>, where \<open>None\<close> is the \<^verbatim>\<open>ValueError\<close> that \<^verbatim>\<open>float\<close> raises on a
  string it does not accept.
\<close>

record python =
  str_strip :: "string \<Rightarrow> string"
  str_float :: "string \<Rightarrow> pyval option"

subsection \<open>The store\<close>

text \<open>
  Modelled from the spec: the table declarations (the schema file is not among the
  sources). Section 3 of the specification and the \<^verbatim>\<open>INSERT\<close> statements of
  \<^verbatim>\<open>sql/seed.py\<close> give the columns: a book has a unique id, a title and an optional
  embedding vector; a rating has the id of its book, an integer score and a
  timestamp. Timestamps are seconds since the epoch, and \<open>db_now\<close> is the
  store's clock at the time of the query.
\<close>

record book =
  books_id :: int
  books_title :: string
  books_embedding :: "real list option"

record rating =
  ratings_book_id :: int
  ratings_rating :: int
  ratings_ts :: int

record database =
  books :: "book list"
  ratings :: "rating list"
  db_now :: int

text \<open>
  A connection either fails on every statement or answers from a database. The
  driver converts a column of type vector for Python with a type caster: without an
  adapter this is the text the store prints (\<^verbatim>\<open>'[0.1,0.2]'\<close>), with one it is a
  sequence. The caster is part of the connection.
\<close>

datatype conn = Broken | Live database "real list \<Rightarrow> pyval"

subsubsection \<open>Aggregates\<close>

definition ratings_of :: "database \<Rightarrow> int \<Rightarrow> int list" where
  "ratings_of db b = map ratings_rating (filter (\<lambda>r. ratings_book_id r = b) (ratings db))"

text \<open>\<^verbatim>\<open>AVG\<close> is NULL on no rows and a numeric (a Python Decimal) otherwise.\<close>

definition sql_avg :: "int list \<Rightarrow> pyval" where
  "sql_avg xs = (if xs = [] then PNone else PDecimal (real_of_int (sum_list xs) / real (length xs)))"

definition sql_count :: "'a list \<Rightarrow> pyval" where
  "sql_count xs = PInt (int (length xs))"

subsubsection \<open>The distance operator\<close>

text \<open>
  \<^verbatim>\<open>a <=> b\<close> is the cosine distance of the vector extension: one minus the cosine
  similarity, the similarity kept in the range from -1 to 1. When a norm is zero the
  extension computes 0/0 and returns NaN. An operand that is NULL makes the result NULL.
\<close>

definition dot :: "real list \<Rightarrow> real list \<Rightarrow> real" where
  "dot a b = sum_list (map2 (*) a b)"

definition cosine_distance :: "real list \<Rightarrow> real list \<Rightarrow> pyval" where
  "cosine_distance a b =
     (let norms = dot a a * dot b b
      in if norms = 0 then PNaN
         else PFloat (1 - max (- 1) (min 1 (dot a b / sqrt norms))))"

definition sql_distance :: "real list option \<Rightarrow> real list option \<Rightarrow> pyval" where
  "sql_distance a b =
     (case (a, b) of
        (Some u, Some v) \<Rightarrow> cosine_distance u v
      | _ \<Rightarrow> PNone)"

text \<open>
  The scalar subquery \<^verbatim>\<open>(SELECT embedding FROM books WHERE id = %s)\<close>: NULL when no
  book has the id. Ids are unique, so at most one row matches.
\<close>

definition reference_embedding :: "database \<Rightarrow> int \<Rightarrow> real list option" where
  "reference_embedding db reference_book_id =
     (case filter (\<lambda>b. books_id b = reference_book_id) (books db) of
        [] \<Rightarrow> None
      | b # _ \<Rightarrow> books_embedding b)"

definition distance_to :: "database \<Rightarrow> int \<Rightarrow> book \<Rightarrow> pyval" where
  "distance_to db reference_book_id b =
     sql_distance (books_embedding b) (reference_embedding db reference_book_id)"

text \<open>\<^verbatim>\<open>distance < 2.0\<close> in a \<^verbatim>\<open>WHERE\<close> clause: NULL and NaN do not pass.\<close>

fun below_threshold :: "pyval \<Rightarrow> bool" where
  "below_threshold (PFloat d) = (d < 2)"
| "below_threshold _ = False"

text \<open>
  The store refuses a statement whose \<^verbatim>\<open>LIMIT\<close> is negative, and one that applies
  \<^verbatim>\<open><=>\<close> to vectors of different dimensions.
\<close>

definition dimension_clash :: "database \<Rightarrow> int \<Rightarrow> bool" where
  "dimension_clash db reference_book_id =
     (case reference_embedding db reference_book_id of
        None \<Rightarrow> False
      | Some v \<Rightarrow> list_ex (\<lambda>b. case books_embedding b of None \<Rightarrow> False
                                | Some u \<Rightarrow> length u \<noteq> length v) (books db))"

subsubsection \<open>The statements of \<^verbatim>\<open>get_book_recommendations\<close>\<close>

text \<open>
  With an exclusion id: books left-joined with their ratings, filtered by the
  \<^verbatim>\<open>WHERE\<close> clause, one group per book (the id is the key), five columns. The
  statement has no \<^verbatim>\<open>ORDER BY\<close>: the store yields the groups in an order of its own
  choosing, which is the order of the list \<open>books db\<close> here, and \<^verbatim>\<open>LIMIT\<close> keeps the
  first rows of that order.
\<close>

definition recommendation_row :: "database \<Rightarrow> int \<Rightarrow> book \<Rightarrow> pyval list" where
  "recommendation_row db reference_book_id b =
     [PInt (books_id b), PStr (books_title b), distance_to db reference_book_id b,
      sql_avg (ratings_of db (books_id b)), sql_count (ratings_of db (books_id b))]"

definition candidates :: "database \<Rightarrow> int \<Rightarrow> int \<Rightarrow> book list" where
  "candidates db reference_book_id exclude_book_id =
     filter (\<lambda>b. books_embedding b \<noteq> None \<and> books_id b \<noteq> exclude_book_id
                 \<and> below_threshold (distance_to db reference_book_id b)) (books db)"

definition query_excluding :: "database \<Rightarrow> int \<Rightarrow> int \<Rightarrow> int \<Rightarrow> pyerror + pyval list list" where
  "query_excluding db reference_book_id exclude_book_id limit =
     (if limit < 0 \<or> dimension_clash db reference_book_id then Inl DatabaseError
      else Inr (take (nat limit)
                  (map (recommendation_row db reference_book_id)
                     (candidates db reference_book_id exclude_book_id))))"

text \<open>
  Without an exclusion id: three columns, ordered by distance ascending. In that
  order numbers come first, then NaN, then NULL; rows with equal keys stay in table
  order.
\<close>

definition plain_row :: "database \<Rightarrow> int \<Rightarrow> book \<Rightarrow> pyval list" where
  "plain_row db reference_book_id b =
     [PInt (books_id b), PStr (books_title b), distance_to db reference_book_id b]"

fun distance_rank :: "pyval \<Rightarrow> nat \<times> real" where
  "distance_rank (PFloat d) = (0, d)"
| "distance_rank PNaN = (1, 0)"
| "distance_rank _ = (2, 0)"

definition query_plain :: "database \<Rightarrow> int \<Rightarrow> int \<Rightarrow> pyerror + pyval list list" where
  "query_plain db reference_book_id limit =
     (if limit < 0 \<or> dimension_clash db reference_book_id then Inl DatabaseError
      else Inr (take (nat limit)
                  (map (plain_row db reference_book_id)
                     (sort_key (\<lambda>b. distance_rank (distance_to db reference_book_id b))
                        (filter (\<lambda>b. books_embedding b \<noteq> None) (books db))))))"

subsubsection \<open>The statements of the other functions\<close>

text \<open>
  \<^verbatim>\<open>SELECT AVG(rating), COUNT(rating) FROM ratings WHERE book_id = %s\<close>: an aggregate
  without \<^verbatim>\<open>GROUP BY\<close> has exactly one row.
\<close>

definition query_rating :: "database \<Rightarrow> int \<Rightarrow> pyval list list" where
  "query_rating db b = [[sql_avg (ratings_of db b), sql_count (ratings_of db b)]]"

text \<open>\<^verbatim>\<open>SELECT embedding FROM books WHERE id = %s AND embedding IS NOT NULL\<close>.\<close>

definition query_embedding :: "database \<Rightarrow> (real list \<Rightarrow> pyval) \<Rightarrow> int \<Rightarrow> pyval list list" where
  "query_embedding db caster b =
     map (\<lambda>v. [caster v])
       (List.map_filter (\<lambda>x. if books_id x = b then books_embedding x else None) (books db))"

text \<open>
  The rating trend: ratings of the last 30 days, one group per calendar day, ordered by
  day. \<^verbatim>\<open>DATE(ts)\<close> is the day number of the timestamp.
\<close>

definition day_of :: "int \<Rightarrow> int" where
  "day_of t = t div 86400"

definition recent_ratings :: "database \<Rightarrow> rating list" where
  "recent_ratings db = filter (\<lambda>r. ratings_ts r \<ge> db_now db - 30 * 86400) (ratings db)"

definition query_rating_trend :: "database \<Rightarrow> pyval list list" where
  "query_rating_trend db =
     map (\<lambda>d. let rs = map ratings_rating (filter (\<lambda>r. day_of (ratings_ts r) = d) (recent_ratings db))
              in [PDate d, sql_avg rs, sql_count rs])
       (sort (remdups (map (\<lambda>r. day_of (ratings_ts r)) (recent_ratings db))))"

text \<open>
  The leaderboard: books joined with their ratings (a book without ratings has no
  row in the join), one group per book, groups of at least 3 ratings, ordered by
  average descending and then by count descending, the first 10. Groups with equal
  keys stay in table order.
\<close>

definition mean :: "int list \<Rightarrow> real" where
  "mean xs = real_of_int (sum_list xs) / real (length xs)"

definition leaderboard_key :: "database \<Rightarrow> book \<Rightarrow> real \<times> int" where
  "leaderboard_key db b =
     (- mean (ratings_of db (books_id b)), - int (length (ratings_of db (books_id b))))"

definition query_top_books :: "database \<Rightarrow> pyval list list" where
  "query_top_books db =
     take 10
       (map (\<lambda>b. [PStr (books_title b), sql_avg (ratings_of db (books_id b)),
                  sql_count (ratings_of db (books_id b))])
          (sort_key (leaderboard_key db)
             (filter (\<lambda>b. length (ratings_of db (books_id b)) \<ge> 3)
                (filter (\<lambda>b. ratings_of db (books_id b) \<noteq> []) (books db)))))"

subsubsection \<open>Cursors\<close>

text \<open>
  \<^verbatim>\<open>cursor.execute\<close> followed by \<^verbatim>\<open>fetchall\<close>; on a broken connection the statement
  raises. \<^verbatim>\<open>fetchone\<close> is the first row, or \<^verbatim>\<open>None\<close>.
\<close>

definition fetchone :: "pyval list list \<Rightarrow> pyval list option" where
  "fetchone rows = (case rows of [] \<Rightarrow> None | r # _ \<Rightarrow> Some r)"

subsection \<open>Python operations on driver values\<close>

definition and_then :: "pyerror + 'a \<Rightarrow> ('a \<Rightarrow> pyerror + 'b) \<Rightarrow> pyerror + 'b" where
  "and_then r f = (case r of Inl e \<Rightarrow> Inl e | Inr x \<Rightarrow> f x)"

text \<open>\<^verbatim>\<open>float(v)\<close>; on a string it is the built-in \<open>str_float\<close>.\<close>

fun py_float :: "python \<Rightarrow> pyval \<Rightarrow> pyerror + pyval" where
  "py_float py PNone = Inl TypeError"
| "py_float py (PInt n) = Inr (PFloat (real_of_int n))"
| "py_float py (PFloat x) = Inr (PFloat x)"
| "py_float py PNaN = Inr PNaN"
| "py_float py (PDecimal x) = Inr (PFloat x)"
| "py_float py (PStr s) =
     (case str_float py s of None \<Rightarrow> Inl ValueError | Some x \<Rightarrow> Inr x)"
| "py_float py (PList vs) = Inl TypeError"
| "py_float py (PDate d) = Inl TypeError"

text \<open>\<^verbatim>\<open>1 - v\<close>.\<close>

fun one_minus :: "pyval \<Rightarrow> pyerror + pyval" where
  "one_minus (PInt n) = Inr (PInt (1 - n))"
| "one_minus (PFloat x) = Inr (PFloat (1 - x))"
| "one_minus PNaN = Inr PNaN"
| "one_minus (PDecimal x) = Inr (PDecimal (1 - x))"
| "one_minus _ = Inl TypeError"

text \<open>
  \<^verbatim>\<open>max(0, v)\<close> returns \<open>v\<close> when \<^verbatim>\<open>v > 0\<close> and the integer 0 otherwise; every
  comparison with NaN is false, so the result is always a number, given here by its
  value.
\<close>

fun max_zero :: "pyval \<Rightarrow> pyerror + real" where
  "max_zero (PInt n) = Inr (if n > 0 then real_of_int n else 0)"
| "max_zero (PFloat x) = Inr (if x > 0 then x else 0)"
| "max_zero PNaN = Inr 0"
| "max_zero (PDecimal x) = Inr (if x > 0 then x else 0)"
| "max_zero _ = Inl TypeError"

text \<open>\<^verbatim>\<open>hasattr(v, '__iter__')\<close>.\<close>

fun is_iterable :: "pyval \<Rightarrow> bool" where
  "is_iterable (PStr s) = True"
| "is_iterable (PList vs) = True"
| "is_iterable _ = False"

text \<open>\<^verbatim>\<open>isinstance(v, str)\<close>.\<close>

fun isinstance_str :: "pyval \<Rightarrow> bool" where
  "isinstance_str (PStr s) = True"
| "isinstance_str _ = False"

text \<open>\<^verbatim>\<open>list(v)\<close>: the elements of a sequence, the characters of a text.\<close>

fun py_list :: "pyval \<Rightarrow> pyerror + pyval" where
  "py_list (PList vs) = Inr (PList vs)"
| "py_list (PStr s) = Inr (PList (map (\<lambda>c. PStr [c]) s))"
| "py_list _ = Inl TypeError"

text \<open>
  \<^verbatim>\<open>xs.sort(key=f, reverse=True)\<close>: descending, and elements with equal keys keep
  their order. \<open>sort_key\<close> is a stable ascending sort.
\<close>

definition sort_reverse :: "('a \<Rightarrow> 'k::linorder) \<Rightarrow> 'a list \<Rightarrow> 'a list" where
  "sort_reverse f xs = rev (sort_key f (rev xs))"

subsection \<open>The functions of app.py\<close>

subsubsection \<open>\<^verbatim>\<open>get_book_rating\<close>\<close>

text \<open>
  The body of the \<^verbatim>\<open>try\<close> block: \<^verbatim>\<open>if result and result[0]\<close> tests the row and then
  its first column for truth; the average is converted with \<^verbatim>\<open>float\<close>.
\<close>

definition get_book_rating_try :: "python \<Rightarrow> conn \<Rightarrow> int \<Rightarrow> pyerror + pyval \<times> pyval" where
  "get_book_rating_try py conn book_id =
     (case conn of
        Broken \<Rightarrow> Inl DatabaseError
      | Live db caster \<Rightarrow>
          (case fetchone (query_rating db book_id) of
             None \<Rightarrow> Inr (PNone, PInt 0)
           | Some result \<Rightarrow>
               if result = [] then Inr (PNone, PInt 0)
               else and_then (getitem result 0) (\<lambda>r0.
                    if truthy r0
                    then and_then (py_float py r0) (\<lambda>avg_rating.
                         and_then (getitem result 1) (\<lambda>num_ratings.
                         Inr (avg_rating, num_ratings)))
                    else Inr (PNone, PInt 0))))"

text \<open>The \<^verbatim>\<open>except\<close> branch returns \<^verbatim>\<open>None, 0\<close> and calls nothing.\<close>

definition get_book_rating :: "python \<Rightarrow> conn \<Rightarrow> int \<Rightarrow> (pyval \<times> pyval) \<times> st_event list" where
  "get_book_rating py conn book_id =
     (case get_book_rating_try py conn book_id of
        Inl e \<Rightarrow> ((PNone, PInt 0), [])
      | Inr r \<Rightarrow> (r, []))"

subsubsection \<open>\<^verbatim>\<open>get_book_embedding\<close>\<close>

text \<open>
  \<^verbatim>\<open>[float(x.strip()) for x in embedding_str.split(',') if x.strip()]\<close>: the first
  piece that \<^verbatim>\<open>float\<close> rejects raises.
\<close>

fun floats_of :: "python \<Rightarrow> string list \<Rightarrow> pyerror + pyval list" where
  "floats_of py [] = Inr []"
| "floats_of py (x # xs) =
     (if str_strip py x = [] then floats_of py xs
      else (case str_float py (str_strip py x) of
              None \<Rightarrow> Inl ValueError
            | Some v \<Rightarrow> and_then (floats_of py xs) (\<lambda>vs. Inr (v # vs))))"

text \<open>
  The branch for text: \<^verbatim>\<open>embedding.strip('[]')\<close>, the split at commas and the list
  comprehension.
\<close>

definition parse_embedding_str :: "python \<Rightarrow> string \<Rightarrow> pyerror + pyval" where
  "parse_embedding_str py s =
     and_then (floats_of py (split (CHR '','') (strip_brackets s)))
       (\<lambda>embedding_list. Inr (PList embedding_list))"

text \<open>
  The dispatch on the type of the stored value: \<^verbatim>\<open>isinstance(embedding, str)\<close>, then
  \<^verbatim>\<open>hasattr(embedding, '__iter__') and not isinstance(embedding, str)\<close>, then the
  fallback that returns the value as it is.
\<close>

definition decode_embedding :: "python \<Rightarrow> pyval \<Rightarrow> pyerror + pyval" where
  "decode_embedding py embedding_val =
     (if isinstance_str embedding_val
      then (case embedding_val of
              PStr s \<Rightarrow> parse_embedding_str py s
            | _ \<Rightarrow> Inl TypeError)
      else if is_iterable embedding_val \<and> \<not> isinstance_str embedding_val
      then py_list embedding_val
      else Inr embedding_val)"

definition get_book_embedding_try :: "python \<Rightarrow> conn \<Rightarrow> int \<Rightarrow> pyerror + pyval" where
  "get_book_embedding_try py conn book_id =
     (case conn of
        Broken \<Rightarrow> Inl DatabaseError
      | Live db caster \<Rightarrow>
          (case fetchone (query_embedding db caster book_id) of
             None \<Rightarrow> Inr PNone
           | Some result \<Rightarrow>
               if result = [] then Inr PNone
               else and_then (getitem result 0) (\<lambda>r0.
                    if truthy r0 then decode_embedding py r0 else Inr PNone)))"

definition get_book_embedding :: "python \<Rightarrow> conn \<Rightarrow> int \<Rightarrow> pyval \<times> st_event list" where
  "get_book_embedding py conn book_id =
     (case get_book_embedding_try py conn book_id of
        Inl e \<Rightarrow> (PNone, [st_error ''Error getting book embedding'' e])
      | Inr v \<Rightarrow> (v, []))"

subsubsection \<open>\<^verbatim>\<open>get_book_recommendations\<close>\<close>

text \<open>The dictionary built for each row. The key \<^verbatim>\<open>'id'\<close> is the field \<open>rec_id\<close>.\<close>

record recommendation =
  rec_id :: pyval
  title :: pyval
  similarity_score :: real
  avg_rating :: pyval
  num_ratings :: pyval

text \<open>
  One element of the list comprehension; the entries of the dictionary display are
  evaluated from top to bottom.
\<close>

definition make_recommendation :: "python \<Rightarrow> pyval list \<Rightarrow> pyerror + recommendation" where
  "make_recommendation py row =
     and_then (getitem row 0) (\<lambda>r0.
     and_then (getitem row 1) (\<lambda>r1.
     and_then (getitem row 2) (\<lambda>r2.
     and_then (one_minus r2) (\<lambda>x.
     and_then (max_zero x) (\<lambda>score.
     and_then (getitem row 3) (\<lambda>r3.
     and_then (if truthy r3 then py_float py r3 else Inr PNone) (\<lambda>avg.
     and_then (getitem row 4) (\<lambda>r4.
     Inr \<lparr>rec_id = r0, title = r1, similarity_score = score, avg_rating = avg,
          num_ratings = (if truthy r4 then r4 else PInt 0)\<rparr>))))))))"

fun make_recommendations :: "python \<Rightarrow> pyval list list \<Rightarrow> pyerror + recommendation list" where
  "make_recommendations py [] = Inr []"
| "make_recommendations py (row # rows) =
     and_then (make_recommendation py row) (\<lambda>r.
     and_then (make_recommendations py rows) (\<lambda>rs. Inr (r # rs)))"

text \<open>
  \<^verbatim>\<open>if exclude_book_id:\<close> on an argument that is \<^verbatim>\<open>None\<close> or an integer selects the
  statement; \<^verbatim>\<open>fetchall\<close> returns its rows.
\<close>

definition fetch_candidates :: "conn \<Rightarrow> int \<Rightarrow> int \<Rightarrow> int option \<Rightarrow> pyerror + pyval list list" where
  "fetch_candidates conn reference_book_id limit exclude_book_id =
     (case conn of
        Broken \<Rightarrow> Inl DatabaseError
      | Live db caster \<Rightarrow>
          (case exclude_book_id of
             None \<Rightarrow> query_plain db reference_book_id limit
           | Some e \<Rightarrow>
               if e \<noteq> 0 then query_excluding db reference_book_id e limit
               else query_plain db reference_book_id limit))"

definition get_book_recommendations ::
    "python \<Rightarrow> conn \<Rightarrow> int \<Rightarrow> int \<Rightarrow> int option \<Rightarrow> recommendation list \<times> st_event list" where
  "get_book_recommendations py conn reference_book_id limit exclude_book_id =
     (case and_then (fetch_candidates conn reference_book_id limit exclude_book_id)
             (make_recommendations py) of
        Inl e \<Rightarrow> ([], [st_error ''Error getting recommendations'' e])
      | Inr recommendations \<Rightarrow> (sort_reverse similarity_score recommendations, []))"

subsubsection \<open>\<^verbatim>\<open>get_rating_analytics\<close>\<close>

definition get_rating_analytics ::
    "conn \<Rightarrow> (pyval list list \<times> pyval list list) \<times> st_event list" where
  "get_rating_analytics conn =
     (case conn of
        Broken \<Rightarrow> (([], []), [st_error ''Error getting analytics'' DatabaseError])
      | Live db caster \<Rightarrow> ((query_rating_trend db, query_top_books db), []))"

section \<open>Example stores\<close>

text \<open>
  The store of the end-to-end scenario of the specification: book 1 and book 2 have
  the embedding (1, 0, 0), book 3 the orthogonal (0, 1, 0); book 2 has the five
  ratings 5, 4, 4, 4, 4 and book 3 has none. The table holds book 3 before book 2.
\<close>

definition book_A :: book where
  "book_A = \<lparr>books_id = 1, books_title = ''A'', books_embedding = Some [1, 0, 0]\<rparr>"

definition book_B :: book where
  "book_B = \<lparr>books_id = 2, books_title = ''B'', books_embedding = Some [1, 0, 0]\<rparr>"

definition book_C :: book where
  "book_C = \<lparr>books_id = 3, books_title = ''C'', books_embedding = Some [0, 1, 0]\<rparr>"

definition rating_B :: "int \<Rightarrow> rating" where
  "rating_B v = \<lparr>ratings_book_id = 2, ratings_rating = v, ratings_ts = 0\<rparr>"

definition scenario_db :: database where
  "scenario_db =
     \<lparr>books = [book_A, book_C, book_B],
      ratings = [rating_B 5, rating_B 4, rating_B 4, rating_B 4, rating_B 4],
      db_now = 0\<rparr>"

text \<open>A type caster that hands a vector over as a list of floats.\<close>

definition list_caster :: "real list \<Rightarrow> pyval" where
  "list_caster v = PList (map PFloat v)"

definition scenario_conn :: conn where
  "scenario_conn = Live scenario_db list_caster"

text \<open>
  An instance of the two built-ins, for running the examples. \<open>ascii_strip\<close> removes
  the white space of the ASCII range (the codes 9 to 13 and 28 to 32), and
  \<open>decimal_float\<close> reads a plain decimal numeral,
  \<^verbatim>\<open>[sign] (digits [. [digits]] | . digits) [(e|E) [sign] digits]\<close>, between white space
  and gives the number written there. They are not models of the built-ins: they
  agree with Python on plain decimal numerals and ASCII white space, which is all the
  examples contain, and only the evaluations at the example stores use them.
\<close>

definition ascii_space :: "char \<Rightarrow> bool" where
  "ascii_space c = (let n = (of_char c :: nat) in (9 \<le> n \<and> n \<le> 13) \<or> (28 \<le> n \<and> n \<le> 32))"

definition ascii_strip :: "string \<Rightarrow> string" where
  "ascii_strip s = strip_chars ascii_space s"

definition is_digit :: "char \<Rightarrow> bool" where
  "is_digit c = (let n = (of_char c :: nat) in 48 \<le> n \<and> n \<le> 57)"

definition digit_val :: "char \<Rightarrow> nat" where
  "digit_val c = of_char c - 48"

definition digits_val :: "string \<Rightarrow> nat" where
  "digits_val s = foldl (\<lambda>acc c. 10 * acc + digit_val c) 0 s"

definition all_digits :: "string \<Rightarrow> bool" where
  "all_digits s = list_all is_digit s"

definition split_sign :: "string \<Rightarrow> bool \<times> string" where
  "split_sign s =
     (case s of
        [] \<Rightarrow> (False, [])
      | c # cs \<Rightarrow> if c = CHR ''-'' then (True, cs)
                 else if c = CHR ''+'' then (False, cs)
                 else (False, s))"

definition parse_mantissa :: "string \<Rightarrow> real option" where
  "parse_mantissa s =
     (let ip = takeWhile (\<lambda>c. c \<noteq> CHR ''.'') s;
          rest = dropWhile (\<lambda>c. c \<noteq> CHR ''.'') s;
          fp = (case rest of [] \<Rightarrow> [] | _ # t \<Rightarrow> t)
      in if ip @ fp \<noteq> [] \<and> all_digits ip \<and> all_digits fp
         then Some (real (digits_val ip) + real (digits_val fp) / 10 ^ length fp)
         else None)"

definition parse_exponent :: "string \<Rightarrow> int option" where
  "parse_exponent s =
     (case s of
        [] \<Rightarrow> Some 0
      | _ # t \<Rightarrow>
          (let (neg, ds) = split_sign t
           in if ds \<noteq> [] \<and> all_digits ds
              then Some (if neg then - int (digits_val ds) else int (digits_val ds))
              else None))"

definition decimal_float :: "string \<Rightarrow> pyval option" where
  "decimal_float s =
     (let (neg, body) = split_sign (ascii_strip s);
          is_e = (\<lambda>c. c = CHR ''e'' \<or> c = CHR ''E'');
          ms = takeWhile (\<lambda>c. \<not> is_e c) body;
          es = dropWhile (\<lambda>c. \<not> is_e c) body
      in case (parse_mantissa ms, parse_exponent es) of
           (Some m, Some e) \<Rightarrow> Some (PFloat ((if neg then - m else m) * 10 powi e))
         | _ \<Rightarrow> None)"

definition example_python :: python where
  "example_python = \<lparr>str_strip = ascii_strip, str_float = decimal_float\<rparr>"




text \<open>
  A store for the leaderboard: book 1 has two ratings of 5, book 2 the ratings
  5, 4, 4, 4, 4 and book 3 three ratings of 3.
\<close>

definition rating_of_book :: "int \<Rightarrow> int \<Rightarrow> rating" where
  "rating_of_book b v = \<lparr>ratings_book_id = b, ratings_rating = v, ratings_ts = 0\<rparr>"

definition leaderboard_db :: database where
  "leaderboard_db =
     \<lparr>books = [book_A, book_C, book_B],
      ratings = [rating_of_book 1 5, rating_of_book 1 5,
                 rating_of_book 3 3, rating_of_book 3 3, rating_of_book 3 3,
                 rating_of_book 2 5, rating_of_book 2 4, rating_of_book 2 4,
                 rating_of_book 2 4, rating_of_book 2 4],
      db_now = 0\<rparr>"

section \<open>Auxiliary facts\<close>

subsection \<open>Exceptions, distances, rows\<close>

lemma and_then_Inl: "and_then (Inl e) f = Inl e"
  by (simp add: and_then_def)

lemma and_then_Inr: "and_then (Inr x) f = f x"
  by (simp add: and_then_def)

lemma and_then_eq_Inr:
  "and_then r f = Inr y \<longleftrightarrow> (\<exists>x. r = Inr x \<and> f x = Inr y)"
  by (cases r) (simp_all add: and_then_def)

lemma cosine_distance_cases:
  "cosine_distance u v = PNaN \<or> (\<exists>d. cosine_distance u v = PFloat d \<and> 0 \<le> d \<and> d \<le> 2)"
  by (auto simp: cosine_distance_def Let_def)

lemma distance_to_cases:
  "distance_to db r b = PNone \<or> distance_to db r b = PNaN
     \<or> (\<exists>d. distance_to db r b = PFloat d \<and> 0 \<le> d \<and> d \<le> 2)"
  using cosine_distance_cases
  by (auto simp: distance_to_def sql_distance_def split: option.splits)

lemma below_thresholdD: "below_threshold v \<Longrightarrow> \<exists>d. v = PFloat d \<and> d < 2"
  by (cases v) simp_all

lemma make_recommendation_row:
  assumes "distance_to db r b = PFloat d"
  shows "make_recommendation py (recommendation_row db r b) =
           Inr \<lparr>rec_id = PInt (books_id b), title = PStr (books_title b),
                similarity_score = max 0 (1 - d),
                avg_rating = (if truthy (sql_avg (ratings_of db (books_id b)))
                              then PFloat (mean (ratings_of db (books_id b))) else PNone),
                num_ratings = PInt (int (length (ratings_of db (books_id b))))\<rparr>"
  using assms
  by (simp add: make_recommendation_def recommendation_row_def getitem_def and_then_Inr
        sql_avg_def sql_count_def mean_def max_def)

lemma make_recommendations_all2:
  "make_recommendations py rows = Inr rs \<Longrightarrow>
     list_all2 (\<lambda>row r. make_recommendation py row = Inr r) rows rs"
  by (induction rows arbitrary: rs) (auto simp: and_then_eq_Inr)

lemma make_recommendations_total:
  "(\<And>row. row \<in> set rows \<Longrightarrow> \<exists>r. make_recommendation py row = Inr r) \<Longrightarrow>
     \<exists>rs. make_recommendations py rows = Inr rs"
proof (induction rows)
  case Nil
  then show ?case by simp
next
  case (Cons row rows)
  from Cons.prems obtain r where r: "make_recommendation py row = Inr r" by auto
  from Cons obtain rs where "make_recommendations py rows = Inr rs" by auto
  with r show ?case by (simp add: and_then_Inr)
qed

lemma set_sort_reverse: "set (sort_reverse f xs) = set xs"
  by (simp add: sort_reverse_def)

lemma length_sort_reverse: "length (sort_reverse f xs) = length xs"
  by (simp add: sort_reverse_def)

lemma mset_sort_reverse: "mset (sort_reverse f xs) = mset xs"
  by (simp add: sort_reverse_def)

lemma sorted_sort_reverse: "sorted_wrt (\<lambda>x y. f x \<ge> f y) (sort_reverse f xs)"
proof -
  have "sorted (map f (sort_key f (rev xs)))" by (rule sorted_sort_key)
  then have "sorted_wrt (\<lambda>x y. f x \<le> f y) (sort_key f (rev xs))"
    by (simp add: sorted_map)
  then show ?thesis
    by (simp add: sort_reverse_def sorted_wrt_rev)
qed

lemma candidate_row_builds:
  assumes "b \<in> set (candidates db r e)"
  shows "\<exists>d. distance_to db r b = PFloat d \<and> 0 \<le> d \<and> d < 2"
proof -
  from assms have "below_threshold (distance_to db r b)"
    by (simp add: candidates_def)
  then obtain d where d: "distance_to db r b = PFloat d" "d < 2"
    using below_thresholdD by blast
  with distance_to_cases [of db r b] show ?thesis by auto
qed

lemma query_excluding_rows:
  assumes "query_excluding db r e limit = Inr rows"
  shows "rows = take (nat limit) (map (recommendation_row db r) (candidates db r e))"
  using assms by (simp add: query_excluding_def split: if_splits)

lemma query_excluding_row:
  assumes "query_excluding db r e limit = Inr rows" and "row \<in> set rows"
  shows "\<exists>b \<in> set (take (nat limit) (candidates db r e)). row = recommendation_row db r b"
proof -
  have "rows = map (recommendation_row db r) (take (nat limit) (candidates db r e))"
    using query_excluding_rows [OF assms(1)] by (simp add: take_map)
  with assms(2) show ?thesis by auto
qed

lemma query_excluding_builds:
  assumes "query_excluding db r e limit = Inr rows"
  shows "\<exists>rs. make_recommendations py rows = Inr rs"
proof (rule make_recommendations_total)
  fix row assume "row \<in> set rows"
  with assms obtain b where b: "b \<in> set (take (nat limit) (candidates db r e))"
      and row: "row = recommendation_row db r b"
    using query_excluding_row by blast
  from b have "b \<in> set (candidates db r e)" by (rule in_set_takeD)
  then obtain d where "distance_to db r b = PFloat d"
    using candidate_row_builds by blast
  then show "\<exists>rc. make_recommendation py row = Inr rc"
    by (simp add: row make_recommendation_row)
qed

lemma recommendations_sorted_rows:
  assumes "fetch_candidates conn r limit ex = Inr rows"
      and "make_recommendations py rows = Inr rs"
  shows "get_book_recommendations py conn r limit ex = (sort_reverse similarity_score rs, [])"
  using assms by (simp add: get_book_recommendations_def and_then_Inr)

lemma recommendations_failed:
  assumes "and_then (fetch_candidates conn r limit ex) (make_recommendations py) = Inl err"
  shows "get_book_recommendations py conn r limit ex =
           ([], [st_error ''Error getting recommendations'' err])"
  using assms by (simp add: get_book_recommendations_def)

lemma recommendations_origin:
  assumes "rc \<in> set (fst (get_book_recommendations py conn r limit ex))"
  shows "\<exists>rows rs. fetch_candidates conn r limit ex = Inr rows
            \<and> make_recommendations py rows = Inr rs \<and> rc \<in> set rs
            \<and> fst (get_book_recommendations py conn r limit ex) = sort_reverse similarity_score rs"
proof (cases "and_then (fetch_candidates conn r limit ex) (make_recommendations py)")
  case (Inl err)
  with assms show ?thesis by (simp add: get_book_recommendations_def)
next
  case (Inr rs)
  then obtain rows where rows: "fetch_candidates conn r limit ex = Inr rows"
      and rs: "make_recommendations py rows = Inr rs"
    by (auto simp: and_then_eq_Inr)
  with assms show ?thesis
    by (simp add: recommendations_sorted_rows set_sort_reverse)
qed

lemma all2_left:
  assumes "list_all2 P xs ys" and "x \<in> set xs"
  shows "\<exists>y \<in> set ys. P x y"
proof -
  from assms(2) obtain i where i: "i < length xs" "xs ! i = x"
    by (auto simp: in_set_conv_nth)
  with assms(1) have "P x (ys ! i)" "i < length ys"
    by (auto simp: list_all2_conv_all_nth)
  then show ?thesis using nth_mem by blast
qed

lemma all2_right:
  assumes "list_all2 P xs ys" and "y \<in> set ys"
  shows "\<exists>x \<in> set xs. P x y"
proof -
  from assms(2) obtain i where i: "i < length ys" "ys ! i = y"
    by (auto simp: in_set_conv_nth)
  with assms(1) have "P (xs ! i) y" "i < length xs"
    by (auto simp: list_all2_conv_all_nth)
  then show ?thesis using nth_mem by blast
qed

subsection \<open>The scenario store, evaluated\<close>

lemmas scenario_defs =
  scenario_conn_def scenario_db_def book_A_def book_B_def book_C_def rating_B_def list_caster_def

lemmas store_defs =
  query_excluding_def query_plain_def candidates_def dimension_clash_def
  reference_embedding_def distance_to_def sql_distance_def cosine_distance_def dot_def
  recommendation_row_def plain_row_def ratings_of_def sql_avg_def sql_count_def

lemma scenario_rows:
  "fetch_candidates scenario_conn 1 10 (Some 1) =
     Inr [[PInt 3, PStr ''C'', PFloat 1, PNone, PInt 0],
          [PInt 2, PStr ''B'', PFloat 0, PDecimal (21 / 5), PInt 5]]"
  by (simp add: fetch_candidates_def scenario_defs store_defs)

lemma scenario_result:
  "get_book_recommendations example_python scenario_conn 1 10 (Some 1) =
     ([\<lparr>rec_id = PInt 2, title = PStr ''B'', similarity_score = 1,
        avg_rating = PFloat (21 / 5), num_ratings = PInt 5\<rparr>,
       \<lparr>rec_id = PInt 3, title = PStr ''C'', similarity_score = 0,
        avg_rating = PNone, num_ratings = PInt 0\<rparr>], [])"
  by (simp add: get_book_recommendations_def scenario_rows and_then_def
        make_recommendation_def getitem_def sort_reverse_def)

lemma make_recommendation_fields:
  assumes "make_recommendation py row = Inr rc"
  shows "rec_id rc = row ! 0 \<and> title rc = row ! 1 \<and> length row \<ge> 5
           \<and> (\<exists>x. one_minus (row ! 2) = Inr x \<and> max_zero x = Inr (similarity_score rc))"
  using assms
  by (auto simp: make_recommendation_def and_then_eq_Inr getitem_def split: if_splits)


lemma similarity_of_float:
  assumes "make_recommendation py row = Inr rc" and "row ! 2 = PFloat d"
  shows "similarity_score rc = max 0 (1 - d)"
  using make_recommendation_fields [OF assms(1)] assms(2) by (auto simp: max_def split: if_splits)

lemma fetch_excluding:
  assumes "fetch_candidates conn r limit (Some e) = Inr rows" and "e \<noteq> 0"
  shows "\<exists>db caster. conn = Live db caster \<and> query_excluding db r e limit = Inr rows"
  using assms by (cases conn) (simp_all add: fetch_candidates_def)

subsection \<open>The statement without exclusion, and lengths\<close>

lemma query_plain_row:
  assumes "query_plain db r limit = Inr rows" and "row \<in> set rows"
  shows "\<exists>b \<in> set (books db). books_embedding b \<noteq> None \<and> row = plain_row db r b"
proof -
  have "rows = map (plain_row db r)
          (take (nat limit) (sort_key (\<lambda>b. distance_rank (distance_to db r b))
             (filter (\<lambda>b. books_embedding b \<noteq> None) (books db))))"
    using assms(1) by (simp add: query_plain_def take_map split: if_splits)
  with assms(2) obtain b where
      b: "b \<in> set (take (nat limit) (sort_key (\<lambda>b. distance_rank (distance_to db r b))
             (filter (\<lambda>b. books_embedding b \<noteq> None) (books db))))"
      and row: "row = plain_row db r b"
    by auto
  from b have "b \<in> set (sort_key (\<lambda>b. distance_rank (distance_to db r b))
             (filter (\<lambda>b. books_embedding b \<noteq> None) (books db)))"
    by (rule in_set_takeD)
  then have "b \<in> set (books db) \<and> books_embedding b \<noteq> None" by simp
  with row show ?thesis by blast
qed

lemma fetch_plain:
  assumes "fetch_candidates conn r limit ex = Inr rows" and "ex = None \<or> ex = Some 0"
  shows "\<exists>db caster. conn = Live db caster \<and> query_plain db r limit = Inr rows"
  using assms by (cases conn) (auto simp: fetch_candidates_def)

lemma make_recommendation_plain:
  "make_recommendation py (plain_row db r b) =
     Inl (if distance_to db r b = PNone then TypeError else IndexError)"
  using distance_to_cases [of db r b]
  by (auto simp: make_recommendation_def plain_row_def getitem_def and_then_def)

lemma fetch_length:
  assumes "fetch_candidates conn r limit ex = Inr rows"
  shows "length rows \<le> nat limit"
proof (cases conn)
  case Broken
  with assms show ?thesis by (simp add: fetch_candidates_def)
next
  case (Live db caster)
  with assms have "query_plain db r limit = Inr rows
      \<or> (\<exists>e. query_excluding db r e limit = Inr rows)"
    by (auto simp: fetch_candidates_def split: option.splits if_splits)
  then show ?thesis
    by (auto simp: query_plain_def query_excluding_def split: if_splits)
qed

lemma make_recommendations_length:
  "make_recommendations py rows = Inr rs \<Longrightarrow> length rs = length rows"
  using make_recommendations_all2 [of py rows rs] by (simp add: list_all2_lengthD)

lemma scenario_plain_rows:
  "fetch_candidates scenario_conn 1 10 None =
     Inr [[PInt 1, PStr ''A'', PFloat 0], [PInt 2, PStr ''B'', PFloat 0],
          [PInt 3, PStr ''C'', PFloat 1]]"
  by (simp add: fetch_candidates_def scenario_defs store_defs)

lemma recommendations_length:
  "length (fst (get_book_recommendations py conn r limit ex)) \<le> nat limit"
proof (cases "and_then (fetch_candidates conn r limit ex) (make_recommendations py)")
  case (Inl err)
  then show ?thesis by (simp add: get_book_recommendations_def)
next
  case (Inr rs)
  then obtain rows where rows: "fetch_candidates conn r limit ex = Inr rows"
      and rs: "make_recommendations py rows = Inr rs"
    by (auto simp: and_then_eq_Inr)
  have "length rs \<le> nat limit"
    using fetch_length [OF rows] make_recommendations_length [OF rs] by simp
  then show ?thesis
    by (simp add: recommendations_sorted_rows [OF rows rs] length_sort_reverse)
qed

lemma make_recommendations_ids:
  assumes "make_recommendations py rows = Inr rs"
  shows "map rec_id rs = map (\<lambda>row. row ! 0) rows"
  using assms
proof (induction rows arbitrary: rs)
  case Nil
  then show ?case by simp
next
  case (Cons row rows)
  from Cons.prems obtain rc rest where rc: "make_recommendation py row = Inr rc"
      and rest: "make_recommendations py rows = Inr rest" and eq: "rs = rc # rest"
    by (auto simp: and_then_eq_Inr)
  have "rec_id rc = row ! 0" using make_recommendation_fields [OF rc] by simp
  with Cons.IH [OF rest] eq show ?case by simp
qed

lemma excluding_result:
  assumes "e \<noteq> 0" and "\<not> dimension_clash db r" and "0 \<le> limit"
  shows "\<exists>rs. make_recommendations py
                (take (nat limit) (map (recommendation_row db r) (candidates db r e))) = Inr rs
           \<and> get_book_recommendations py (Live db caster) r limit (Some e)
               = (sort_reverse similarity_score rs, [])"
proof -
  let ?rows = "take (nat limit) (map (recommendation_row db r) (candidates db r e))"
  have q: "query_excluding db r e limit = Inr ?rows"
    using assms by (simp add: query_excluding_def)
  then have f: "fetch_candidates (Live db caster) r limit (Some e) = Inr ?rows"
    using assms(1) by (simp add: fetch_candidates_def)
  from query_excluding_builds [OF q] obtain rs where rs: "make_recommendations py ?rows = Inr rs"
    by blast
  from recommendations_sorted_rows [OF f rs] rs show ?thesis by blast
qed

lemma scenario_candidates:
  "candidates scenario_db 1 1 = [book_C, book_B] \<and> \<not> dimension_clash scenario_db 1"
  by (simp add: scenario_defs store_defs)

lemma get_book_rating_unrated:
  assumes "ratings_of db b = []"
  shows "get_book_rating py (Live db caster) b = ((PNone, PInt 0), [])"
  using assms
  by (simp add: get_book_rating_def get_book_rating_try_def fetchone_def query_rating_def
        sql_avg_def sql_count_def getitem_def and_then_def)

lemma scenario_unrated: "ratings_of scenario_db 3 = []"
  by (simp add: scenario_defs ratings_of_def)

lemma three_books:
  assumes "mset xs = {#a, b, c#}"
  shows "xs = [a, b, c] \<or> xs = [a, c, b] \<or> xs = [b, a, c] \<or> xs = [b, c, a]
           \<or> xs = [c, a, b] \<or> xs = [c, b, a]"
proof -
  from assms have "size (mset xs) = 3" by simp
  then have "length xs = 3" by simp
  then obtain x y z where xs: "xs = [x, y, z]"
    by (auto simp: length_Suc_conv numeral_3_eq_3)
  from assms show ?thesis
    unfolding xs by (auto simp: add_eq_conv_ex)
qed


lemma scenario_distances:
  "cosine_distance [1, 0, 0] [1, 0, 0] = PFloat 0"
  "cosine_distance [0, 1, 0] [1, 0, 0] = PFloat 1"
  by (simp_all add: cosine_distance_def dot_def)

lemma scenario_store_facts:
  "mset (books scenario_db) = {#book_A, book_B, book_C#}"
  "length (ratings_of scenario_db 2) = 5"
  "sum_list (ratings_of scenario_db 2) = 21"
  by (simp_all add: scenario_db_def rating_B_def ratings_of_def)

subsection \<open>Decoding embeddings\<close>


lemma get_book_embedding_row:
  assumes "fetchone (query_embedding db caster b) = Some [v]"
  shows "get_book_embedding py (Live db caster) b =
           (if truthy v
            then (case decode_embedding py v of
                    Inl e \<Rightarrow> (PNone, [st_error ''Error getting book embedding'' e])
                  | Inr r \<Rightarrow> (r, []))
            else (PNone, []))"
  using assms
  by (simp add: get_book_embedding_def get_book_embedding_try_def getitem_def and_then_def)

text \<open>
  A numeral with a digit-group underscore: when \<^verbatim>\<open>float\<close> reads \<^verbatim>\<open>'1_000'\<close> as 1000,
  the stored text \<^verbatim>\<open>'[1_000]'\<close> is decoded to the list of that float.
\<close>

lemma underscore_numeral_decoded:
  assumes "fetchone (query_embedding db caster b) = Some [PStr ''[1_000]'']"
      and "str_strip py ''1_000'' = ''1_000''"
      and "str_float py ''1_000'' = Some (PFloat 1000)"
  shows "get_book_embedding py (Live db caster) b = (PList [PFloat 1000], [])"
  using assms(2,3)
  by (simp add: get_book_embedding_row [OF assms(1)] decode_embedding_def
        parse_embedding_str_def strip_brackets_def strip_chars_def and_then_def)




subsection \<open>The leaderboard\<close>

lemma sql_avg_mean: "rs \<noteq> [] \<Longrightarrow> sql_avg rs = PDecimal (mean rs)"
  by (simp add: sql_avg_def mean_def)

lemma top_books_form:
  "query_top_books db =
     map (\<lambda>b. [PStr (books_title b), sql_avg (ratings_of db (books_id b)),
                sql_count (ratings_of db (books_id b))])
       (take 10 (sort_key (leaderboard_key db)
          (filter (\<lambda>b. ratings_of db (books_id b) \<noteq> [] \<and> 3 \<le> length (ratings_of db (books_id b)))
             (books db))))"
  by (simp add: query_top_books_def take_map conj_commute)

lemma leaderboard_key_le:
  "leaderboard_key db b \<le> leaderboard_key db c \<longleftrightarrow>
     mean (ratings_of db (books_id c)) < mean (ratings_of db (books_id b))
     \<or> (mean (ratings_of db (books_id c)) = mean (ratings_of db (books_id b))
         \<and> length (ratings_of db (books_id c)) \<le> length (ratings_of db (books_id b)))"
  by (auto simp: leaderboard_key_def less_eq_prod_def)

lemma leaderboard_eval:
  "get_rating_analytics (Live leaderboard_db list_caster) =
     (([[PDate 0, PDecimal 4, PInt 10]],
       [[PStr ''B'', PDecimal 4.2, PInt 5], [PStr ''C'', PDecimal 3, PInt 3]]), [])"
  by (simp add: get_rating_analytics_def query_top_books_def query_rating_trend_def
        recent_ratings_def leaderboard_db_def rating_of_book_def book_A_def book_B_def
        book_C_def ratings_of_def sql_avg_def sql_count_def leaderboard_key_def mean_def
        less_eq_prod_def day_of_def)

subsection \<open>Where a returned record comes from\<close>

lemma output_record_source:
  assumes "rc \<in> set (fst (get_book_recommendations py conn r limit ex))"
  shows "\<exists>db caster e b d. conn = Live db caster \<and> ex = Some e \<and> e \<noteq> 0
           \<and> b \<in> set (take (nat limit) (candidates db r e))
           \<and> make_recommendation py (recommendation_row db r b) = Inr rc
           \<and> distance_to db r b = PFloat d \<and> 0 \<le> d \<and> d < 2"
proof -
  from recommendations_origin [OF assms] obtain rows rs where
      fetch: "fetch_candidates conn r limit ex = Inr rows"
      and rs: "make_recommendations py rows = Inr rs" and rc: "rc \<in> set rs"
    by blast
  have "\<exists>row \<in> set rows. make_recommendation py row = Inr rc"
    by (rule all2_right [OF make_recommendations_all2 [OF rs] rc])
  then obtain row where row: "row \<in> set rows" "make_recommendation py row = Inr rc"
    by blast
  have excl: "\<exists>e. ex = Some e \<and> e \<noteq> 0"
  proof (rule ccontr)
    assume "\<not> (\<exists>e. ex = Some e \<and> e \<noteq> 0)"
    then have "ex = None \<or> ex = Some 0" by (cases ex) auto
    with fetch obtain db caster where "query_plain db r limit = Inr rows"
      using fetch_plain by blast
    with row(1) obtain b where "row = plain_row db r b"
      using query_plain_row by blast
    with row(2) show False by (simp add: make_recommendation_plain)
  qed
  then obtain e where e: "ex = Some e" "e \<noteq> 0" by blast
  with fetch obtain db caster where conn: "conn = Live db caster"
      and q: "query_excluding db r e limit = Inr rows"
    using fetch_excluding by blast
  from query_excluding_row [OF q row(1)] obtain b where
      b: "b \<in> set (take (nat limit) (candidates db r e))"
      and r: "row = recommendation_row db r b"
    by blast
  from b have "b \<in> set (candidates db r e)" by (rule in_set_takeD)
  then obtain d where "distance_to db r b = PFloat d" "0 \<le> d" "d < 2"
    using candidate_row_builds by blast
  with conn e b row(2) r show ?thesis by blast
qed

section \<open>Claims\<close>

subsection \<open>Distance to similarity\<close>

text \<open>
  Claim C1. Every record that \<^verbatim>\<open>get_book_recommendations\<close> returns has a similarity
  score between 0 and 1. On a call with an exclusion id, every row that the store
  returns with a distance \<open>d\<close> between 0 and 2 has its record in the result: the
  record carries the id and the title of the row and its similarity score is
  \<open>max 0 (1 - d)\<close>, between 0 and 1; a distance of 0 gives the score 1 and every
  distance of at least 1 gives the score 0.
\<close>

theorem similarity_score_of_row:
  "(\<forall>rc \<in> set (fst (get_book_recommendations py conn reference_book_id limit exclude_book_id)).
       0 \<le> similarity_score rc \<and> similarity_score rc \<le> 1)
   \<and> (exclude_book_id = Some e \<and> e \<noteq> 0
        \<and> fetch_candidates conn reference_book_id limit exclude_book_id = Inr rows
        \<and> row \<in> set rows \<and> row ! 2 = PFloat d \<and> 0 \<le> d \<and> d \<le> 2 \<longrightarrow>
       (\<exists>rc \<in> set (fst (get_book_recommendations py conn reference_book_id limit exclude_book_id)).
           rec_id rc = row ! 0 \<and> title rc = row ! 1
           \<and> similarity_score rc = max 0 (1 - d)
           \<and> 0 \<le> similarity_score rc \<and> similarity_score rc \<le> 1
           \<and> (d = 0 \<longrightarrow> similarity_score rc = 1)
           \<and> (1 \<le> d \<longrightarrow> similarity_score rc = 0)))"
proof (intro conjI ballI impI)
  fix rc
  assume "rc \<in> set (fst (get_book_recommendations py conn reference_book_id limit exclude_book_id))"
  from output_record_source [OF this] obtain db b d' where
      made: "make_recommendation py (recommendation_row db reference_book_id b) = Inr rc"
      and d': "distance_to db reference_book_id b = PFloat d'" "0 \<le> d'"
    by blast
  from made have "similarity_score rc = max 0 (1 - d')"
    unfolding make_recommendation_row [OF d'(1)] by auto
  with d'(2) show "0 \<le> similarity_score rc" "similarity_score rc \<le> 1" by simp_all
next
  assume h: "exclude_book_id = Some e \<and> e \<noteq> 0
        \<and> fetch_candidates conn reference_book_id limit exclude_book_id = Inr rows
        \<and> row \<in> set rows \<and> row ! 2 = PFloat d \<and> 0 \<le> d \<and> d \<le> 2"
  then have fetch: "fetch_candidates conn reference_book_id limit exclude_book_id = Inr rows"
      and row: "row \<in> set rows" and d: "row ! 2 = PFloat d" "0 \<le> d"
    by blast+
  from h obtain db caster where
      q: "query_excluding db reference_book_id e limit = Inr rows"
    using fetch_excluding by blast
  then obtain rs where rs: "make_recommendations py rows = Inr rs"
    using query_excluding_builds by blast
  have out: "fst (get_book_recommendations py conn reference_book_id limit exclude_book_id)
               = sort_reverse similarity_score rs"
    using recommendations_sorted_rows [OF fetch rs] by simp
  have "\<exists>rc \<in> set rs. make_recommendation py row = Inr rc"
    by (rule all2_left [OF make_recommendations_all2 [OF rs] row])
  then obtain rc where rc: "rc \<in> set rs" "make_recommendation py row = Inr rc"
    by blast
  have fields: "rec_id rc = row ! 0" "title rc = row ! 1"
    using make_recommendation_fields [OF rc(2)] by simp_all
  have score: "similarity_score rc = max 0 (1 - d)"
    using similarity_of_float [OF rc(2) d(1)] .
  from rc(1) have "rc \<in> set (fst (get_book_recommendations py conn reference_book_id limit exclude_book_id))"
    by (simp add: out set_sort_reverse)
  moreover have "0 \<le> similarity_score rc" "similarity_score rc \<le> 1"
    using score d(2) by simp_all
  moreover have "d = 0 \<longrightarrow> similarity_score rc = 1" "1 \<le> d \<longrightarrow> similarity_score rc = 0"
    using score by simp_all
  ultimately show "\<exists>rc \<in> set (fst (get_book_recommendations py conn reference_book_id limit exclude_book_id)).
           rec_id rc = row ! 0 \<and> title rc = row ! 1
           \<and> similarity_score rc = max 0 (1 - d)
           \<and> 0 \<le> similarity_score rc \<and> similarity_score rc \<le> 1
           \<and> (d = 0 \<longrightarrow> similarity_score rc = 1)
           \<and> (1 \<le> d \<longrightarrow> similarity_score rc = 0)"
    using fields score by blast
qed

theorem similarity_score_of_row_witness:
  "\<exists>rc \<in> set (fst (get_book_recommendations example_python scenario_conn 1 10 (Some 1))).
     rec_id rc = PInt 3 \<and> title rc = PStr ''C'' \<and> similarity_score rc = 0"
  using similarity_score_of_row [of example_python scenario_conn 1 10 "Some 1" 1
          "[[PInt 3, PStr ''C'', PFloat 1, PNone, PInt 0],
            [PInt 2, PStr ''B'', PFloat 0, PDecimal (21 / 5), PInt 5]]"
          "[PInt 3, PStr ''C'', PFloat 1, PNone, PInt 0]" 1]
  by (simp add: scenario_rows) blast

subsection \<open>Ranking\<close>

text \<open>
  Claim C2. In every list that \<^verbatim>\<open>get_book_recommendations\<close> returns, each element has
  a similarity score at least as large as the score of the element after it.
\<close>

theorem recommendations_sorted_descending:
  assumes "Suc i < length (fst (get_book_recommendations py conn reference_book_id limit exclude_book_id))"
  shows "similarity_score (fst (get_book_recommendations py conn reference_book_id limit exclude_book_id) ! i)
           \<ge> similarity_score (fst (get_book_recommendations py conn reference_book_id limit exclude_book_id) ! Suc i)"
proof (cases "and_then (fetch_candidates conn reference_book_id limit exclude_book_id) (make_recommendations py)")
  case (Inl err)
  with assms show ?thesis by (simp add: get_book_recommendations_def)
next
  case (Inr rs)
  then have out: "fst (get_book_recommendations py conn reference_book_id limit exclude_book_id)
                    = sort_reverse similarity_score rs"
    by (simp add: get_book_recommendations_def)
  have "sorted_wrt (\<lambda>x y. similarity_score x \<ge> similarity_score y) (sort_reverse similarity_score rs)"
    by (rule sorted_sort_reverse)
  with assms show ?thesis
    unfolding out by (simp add: sorted_wrt_iff_nth_less)
qed

theorem recommendations_sorted_descending_witness:
  "Suc 0 < length (fst (get_book_recommendations example_python scenario_conn 1 10 (Some 1)))
     \<and> similarity_score (fst (get_book_recommendations example_python scenario_conn 1 10 (Some 1)) ! 0)
           \<ge> similarity_score (fst (get_book_recommendations example_python scenario_conn 1 10 (Some 1)) ! Suc 0)"
  using recommendations_sorted_descending [of 0 example_python scenario_conn 1 10 "Some 1"]
  by (simp add: scenario_result)

subsection \<open>Exclusion\<close>

text \<open>
  Claim C3. On every call with an exclusion id, no record of the returned list carries
  that id.
\<close>

theorem exclusion_id_absent:
  assumes "rc \<in> set (fst (get_book_recommendations py conn reference_book_id limit (Some e)))"
  shows "rec_id rc \<noteq> PInt e"
proof -
  from recommendations_origin [OF assms] obtain rows rs where
      fetch: "fetch_candidates conn reference_book_id limit (Some e) = Inr rows"
      and rs: "make_recommendations py rows = Inr rs" and rc: "rc \<in> set rs"
    by blast
  have "\<exists>row \<in> set rows. make_recommendation py row = Inr rc"
    by (rule all2_right [OF make_recommendations_all2 [OF rs] rc])
  then obtain row where row: "row \<in> set rows" "make_recommendation py row = Inr rc"
    by blast
  show ?thesis
  proof (cases "e = 0")
    case True
    with fetch obtain db caster where "query_plain db reference_book_id limit = Inr rows"
      using fetch_plain by blast
    with row(1) obtain b where "row = plain_row db reference_book_id b"
      using query_plain_row by blast
    with row(2) show ?thesis by (simp add: make_recommendation_plain)
  next
    case False
    with fetch obtain db caster where
        q: "query_excluding db reference_book_id e limit = Inr rows"
      using fetch_excluding by blast
    from query_excluding_row [OF q row(1)] obtain b where
        b: "b \<in> set (take (nat limit) (candidates db reference_book_id e))"
        and r: "row = recommendation_row db reference_book_id b"
      by blast
    from b have "b \<in> set (candidates db reference_book_id e)" by (rule in_set_takeD)
    then have "books_id b \<noteq> e" by (simp add: candidates_def)
    moreover have "rec_id rc = row ! 0"
      using make_recommendation_fields [OF row(2)] by simp
    ultimately show ?thesis by (simp add: r recommendation_row_def)
  qed
qed

theorem exclusion_id_absent_witness:
  "\<lparr>rec_id = PInt 2, title = PStr ''B'', similarity_score = 1,
     avg_rating = PFloat (21 / 5), num_ratings = PInt 5\<rparr>
      \<in> set (fst (get_book_recommendations example_python scenario_conn 1 10 (Some 1)))
   \<and> rec_id \<lparr>rec_id = PInt 2, title = PStr ''B'', similarity_score = 1,
        avg_rating = PFloat (21 / 5), num_ratings = PInt 5\<rparr> \<noteq> PInt 1"
proof -
  have m: "\<lparr>rec_id = PInt 2, title = PStr ''B'', similarity_score = 1,
             avg_rating = PFloat (21 / 5), num_ratings = PInt 5\<rparr>
            \<in> set (fst (get_book_recommendations example_python scenario_conn 1 10 (Some 1)))"
    by (simp add: scenario_result)
  from m exclusion_id_absent [OF m] show ?thesis by blast
qed

subsection \<open>The call without exclusion id\<close>

text \<open>
  Claim C10. When the exclusion id is absent or 0 and the store returns at least one
  row, the call returns the empty list and reports one error: the rows have three
  columns, so building the first record raises. The exception is the IndexError of
  \<^verbatim>\<open>row[3]\<close>, except when the distance of that row is NULL, where \<^verbatim>\<open>1 - row[2]\<close> has
  raised a TypeError before.
\<close>

theorem no_exclusion_returns_empty:
  assumes "exclude_book_id = None \<or> exclude_book_id = Some 0"
      and "fetch_candidates conn reference_book_id limit exclude_book_id = Inr rows"
      and "rows \<noteq> []"
  shows "get_book_recommendations py conn reference_book_id limit exclude_book_id =
           ([], [st_error ''Error getting recommendations''
                   (if hd rows ! 2 = PNone then TypeError else IndexError)])"
proof -
  from assms(3) obtain row rest where rows: "rows = row # rest"
    by (cases rows) auto
  from assms(1,2) obtain db caster where
      q: "query_plain db reference_book_id limit = Inr rows"
    using fetch_plain by blast
  with rows obtain b where b: "row = plain_row db reference_book_id b"
    using query_plain_row [OF q, of row] by auto
  have d: "row ! 2 = distance_to db reference_book_id b"
    by (simp add: b plain_row_def)
  have "make_recommendations py rows =
          Inl (if row ! 2 = PNone then TypeError else IndexError)"
    unfolding d by (simp add: rows b make_recommendation_plain and_then_Inl)
  then have "and_then (fetch_candidates conn reference_book_id limit exclude_book_id)
               (make_recommendations py)
             = Inl (if hd rows ! 2 = PNone then TypeError else IndexError)"
    by (simp add: assms(2) and_then_Inr rows)
  then show ?thesis by (rule recommendations_failed)
qed

theorem no_exclusion_returns_empty_witness:
  "get_book_recommendations example_python scenario_conn 1 10 None =
     ([], [st_error ''Error getting recommendations'' IndexError])"
  using no_exclusion_returns_empty [OF _ scenario_plain_rows] by simp

subsection \<open>The cap\<close>

text \<open>
  Claim C4. For a positive limit the returned list has at most \<open>limit\<close> elements, and
  the cap comes before the ranking: on a call with an exclusion id that the store
  answers, the returned records are those of the first \<open>limit\<close> candidates in the
  order of the store, whatever their similarity. In the scenario store with limit 1
  the result is book 3 alone, of similarity 0, although book 2 has similarity 1.
\<close>

theorem cap_before_sort:
  assumes "0 < limit"
  shows "int (length (fst (get_book_recommendations py conn reference_book_id limit exclude_book_id)))
           \<le> limit
         \<and> (conn = Live db caster \<and> exclude_book_id = Some e \<and> e \<noteq> 0
              \<and> \<not> dimension_clash db reference_book_id \<longrightarrow>
            mset (map rec_id
                    (fst (get_book_recommendations py conn reference_book_id limit exclude_book_id)))
              = mset (map (\<lambda>b. PInt (books_id b))
                        (take (nat limit) (candidates db reference_book_id e))))"
proof (intro conjI impI)
  show "int (length (fst (get_book_recommendations py conn reference_book_id limit exclude_book_id)))
          \<le> limit"
    using recommendations_length [of py conn reference_book_id limit exclude_book_id] assms
    by linarith
next
  assume h: "conn = Live db caster \<and> exclude_book_id = Some e \<and> e \<noteq> 0
               \<and> \<not> dimension_clash db reference_book_id"
  let ?rows = "take (nat limit)
                 (map (recommendation_row db reference_book_id)
                    (candidates db reference_book_id e))"
  from h assms obtain rs where rs: "make_recommendations py ?rows = Inr rs"
      and out: "get_book_recommendations py (Live db caster) reference_book_id limit (Some e)
                  = (sort_reverse similarity_score rs, [])"
    using excluding_result [of e db reference_book_id limit py caster] by auto
  have "mset (map rec_id (sort_reverse similarity_score rs)) = mset (map rec_id rs)"
    by (simp add: mset_sort_reverse)
  also have "map rec_id rs = map (\<lambda>row. row ! 0) ?rows"
    by (rule make_recommendations_ids [OF rs])
  also have "\<dots> = map (\<lambda>b. PInt (books_id b))
                     (take (nat limit) (candidates db reference_book_id e))"
    by (simp add: take_map recommendation_row_def)
  finally show "mset (map rec_id
                    (fst (get_book_recommendations py conn reference_book_id limit exclude_book_id)))
              = mset (map (\<lambda>b. PInt (books_id b))
                        (take (nat limit) (candidates db reference_book_id e)))"
    using h out by simp
qed

theorem cap_before_sort_witness:
  "int (length (fst (get_book_recommendations example_python scenario_conn 1 1 (Some 1)))) \<le> 1
   \<and> mset (map rec_id (fst (get_book_recommendations example_python scenario_conn 1 1 (Some 1))))
       = {#PInt 3#}"
  using cap_before_sort [of 1 example_python scenario_conn 1 "Some 1" scenario_db list_caster 1]
  by (simp add: scenario_candidates scenario_conn_def book_C_def)

subsection \<open>Items without ratings\<close>

text \<open>
  Claim C6. For an item without ratings \<^verbatim>\<open>get_book_rating\<close> returns \<^verbatim>\<open>(None, 0)\<close> and
  reports nothing; and when the item is among the rows the store returns for a
  recommendation call (it is one of the first \<open>limit\<close> candidates), the result has a
  record for it with average rating \<^verbatim>\<open>None\<close> and rating count 0.
\<close>

theorem unrated_item:
  assumes "ratings_of db b = []"
  shows "get_book_rating py (Live db caster) b = ((PNone, PInt 0), [])
         \<and> (e \<noteq> 0 \<and> \<not> dimension_clash db reference_book_id
              \<and> bk \<in> set (take (nat limit) (candidates db reference_book_id e))
              \<and> books_id bk = b \<longrightarrow>
            (\<exists>rc \<in> set (fst (get_book_recommendations py (Live db caster)
                                 reference_book_id limit (Some e))).
               rec_id rc = PInt b \<and> avg_rating rc = PNone \<and> num_ratings rc = PInt 0))"
proof (intro conjI impI)
  show "get_book_rating py (Live db caster) b = ((PNone, PInt 0), [])"
    by (rule get_book_rating_unrated [OF assms])
next
  assume h: "e \<noteq> 0 \<and> \<not> dimension_clash db reference_book_id
              \<and> bk \<in> set (take (nat limit) (candidates db reference_book_id e))
              \<and> books_id bk = b"
  let ?rows = "take (nat limit)
                 (map (recommendation_row db reference_book_id)
                    (candidates db reference_book_id e))"
  from h have pos: "0 \<le> limit" by (cases "0 \<le> limit") auto
  with h obtain rs where rs: "make_recommendations py ?rows = Inr rs"
      and out: "get_book_recommendations py (Live db caster) reference_book_id limit (Some e)
                  = (sort_reverse similarity_score rs, [])"
    using excluding_result [of e db reference_book_id limit py caster] by auto
  from h have "bk \<in> set (candidates db reference_book_id e)"
    using in_set_takeD by fast
  then obtain d where d: "distance_to db reference_book_id bk = PFloat d"
    using candidate_row_builds by blast
  from h have "recommendation_row db reference_book_id bk \<in> set ?rows"
    by (simp add: take_map)
  then have "\<exists>rc \<in> set rs.
               make_recommendation py (recommendation_row db reference_book_id bk) = Inr rc"
    by (rule all2_left [OF make_recommendations_all2 [OF rs]])
  then obtain rc where rc: "rc \<in> set rs"
      and made: "make_recommendation py (recommendation_row db reference_book_id bk) = Inr rc"
    by blast
  from made h assms have "rec_id rc = PInt b \<and> avg_rating rc = PNone \<and> num_ratings rc = PInt 0"
    by (auto simp: make_recommendation_row [OF d] sql_avg_def)
  with rc show "\<exists>rc \<in> set (fst (get_book_recommendations py (Live db caster)
                                 reference_book_id limit (Some e))).
               rec_id rc = PInt b \<and> avg_rating rc = PNone \<and> num_ratings rc = PInt 0"
    by (auto simp: out set_sort_reverse)
qed

theorem unrated_item_witness:
  "get_book_rating example_python scenario_conn 3 = ((PNone, PInt 0), [])
   \<and> (\<exists>rc \<in> set (fst (get_book_recommendations example_python scenario_conn 1 10 (Some 1))).
         rec_id rc = PInt 3 \<and> avg_rating rc = PNone \<and> num_ratings rc = PInt 0)"
  using unrated_item [OF scenario_unrated, of example_python list_caster 1 1 book_C 10]
  by (simp add: scenario_candidates scenario_conn_def) (simp add: book_C_def)

subsection \<open>The end-to-end scenario\<close>

text \<open>
  Claim C5. The store holds the three books A, B and C in any table order: A and B
  with the embedding (1, 0, 0), C with the orthogonal (0, 1, 0); B has five ratings of
  sum 21, that is of average 4.2, and C has none. The recommendations for A with limit
  10 and A excluded are exactly the record of B with similarity 1, average 4.2 and
  count 5, followed by the record of C with similarity 0, no average and count 0.
\<close>

theorem end_to_end_scenario:
  assumes "mset (books db) = {#book_A, book_B, book_C#}"
      and "length (ratings_of db 2) = 5" and "sum_list (ratings_of db 2) = 21"
      and "ratings_of db 3 = []"
  shows "get_book_recommendations py (Live db caster) 1 10 (Some 1) =
     ([\<lparr>rec_id = PInt 2, title = PStr ''B'', similarity_score = 1,
        avg_rating = PFloat 4.2, num_ratings = PInt 5\<rparr>,
       \<lparr>rec_id = PInt 3, title = PStr ''C'', similarity_score = 0,
        avg_rating = PNone, num_ratings = PInt 0\<rparr>], [])"
proof -
  from assms(2) have ne: "ratings_of db 2 \<noteq> []" by auto
  note evals = get_book_recommendations_def fetch_candidates_def query_excluding_def
    candidates_def dimension_clash_def reference_embedding_def distance_to_def
    sql_distance_def scenario_distances recommendation_row_def sql_avg_def sql_count_def
    and_then_def make_recommendation_def getitem_def sort_reverse_def
    book_A_def book_B_def book_C_def
  from three_books [OF assms(1)] show ?thesis
  proof (elim disjE)
    assume "books db = [book_A, book_B, book_C]"
    with ne assms(2-4) show ?thesis by (simp add: evals)
  next
    assume "books db = [book_A, book_C, book_B]"
    with ne assms(2-4) show ?thesis by (simp add: evals)
  next
    assume "books db = [book_B, book_A, book_C]"
    with ne assms(2-4) show ?thesis by (simp add: evals)
  next
    assume "books db = [book_B, book_C, book_A]"
    with ne assms(2-4) show ?thesis by (simp add: evals)
  next
    assume "books db = [book_C, book_A, book_B]"
    with ne assms(2-4) show ?thesis by (simp add: evals)
  next
    assume "books db = [book_C, book_B, book_A]"
    with ne assms(2-4) show ?thesis by (simp add: evals)
  qed
qed

theorem end_to_end_scenario_witness:
  "get_book_recommendations example_python scenario_conn 1 10 (Some 1) =
     ([\<lparr>rec_id = PInt 2, title = PStr ''B'', similarity_score = 1,
        avg_rating = PFloat 4.2, num_ratings = PInt 5\<rparr>,
       \<lparr>rec_id = PInt 3, title = PStr ''C'', similarity_score = 0,
        avg_rating = PNone, num_ratings = PInt 0\<rparr>], [])"
  unfolding scenario_conn_def
  by (rule end_to_end_scenario [OF scenario_store_facts scenario_unrated])

subsection \<open>Failures of the store\<close>

text \<open>
  Claim C7 says that every failure of the store is reported once to the caller. The
  functions on a connection that fails: \<^verbatim>\<open>get_book_embedding\<close>,
  \<^verbatim>\<open>get_book_recommendations\<close> and \<^verbatim>\<open>get_rating_analytics\<close> return their neutral
  result together with one error report, and none of them runs its statement again;
  \<^verbatim>\<open>get_book_rating\<close> returns \<^verbatim>\<open>(None, 0)\<close>, its answer for a book without ratings,
  and reports nothing.
\<close>

theorem rating_failure_unreported:
  "get_book_rating py Broken book_id = ((PNone, PInt 0), [])
   \<and> get_book_embedding py Broken book_id =
        (PNone, [st_error ''Error getting book embedding'' DatabaseError])
   \<and> get_book_recommendations py Broken reference_book_id limit exclude_book_id =
        ([], [st_error ''Error getting recommendations'' DatabaseError])
   \<and> get_rating_analytics Broken =
        (([], []), [st_error ''Error getting analytics'' DatabaseError])"
  by (simp add: get_book_rating_def get_book_rating_try_def get_book_embedding_def
        get_book_embedding_try_def get_book_recommendations_def fetch_candidates_def
        and_then_def get_rating_analytics_def)

subsection \<open>Embedding encodings\<close>




subsection \<open>The top-rated leaderboard\<close>

text \<open>
  Claim C9. The leaderboard that \<^verbatim>\<open>get_rating_analytics\<close> returns has at most 10 rows;
  every row is the title, the average rating and the rating count of a book with at
  least 3 ratings; and of two adjacent rows the first has the larger average, or the
  same average and a rating count that is not smaller. In the example store book 1,
  with two ratings of 5, is not on the board.
\<close>

theorem top_rated_leaderboard:
  "length (snd (fst (get_rating_analytics (Live db caster)))) \<le> 10
   \<and> (\<forall>row \<in> set (snd (fst (get_rating_analytics (Live db caster)))).
         \<exists>b \<in> set (books db).
           3 \<le> length (ratings_of db (books_id b))
           \<and> row = [PStr (books_title b), PDecimal (mean (ratings_of db (books_id b))),
                     PInt (int (length (ratings_of db (books_id b))))])
   \<and> (\<forall>i. Suc i < length (snd (fst (get_rating_analytics (Live db caster)))) \<longrightarrow>
         (\<exists>t a n t' a' n'.
            snd (fst (get_rating_analytics (Live db caster))) ! i = [PStr t, PDecimal a, PInt n]
            \<and> snd (fst (get_rating_analytics (Live db caster))) ! Suc i
                 = [PStr t', PDecimal a', PInt n']
            \<and> (a' < a \<or> (a' = a \<and> n' \<le> n))))"
proof -
  let ?P = "\<lambda>b. ratings_of db (books_id b) \<noteq> [] \<and> 3 \<le> length (ratings_of db (books_id b))"
  let ?srt = "take 10 (sort_key (leaderboard_key db) (filter ?P (books db)))"
  let ?rowf = "\<lambda>b. [PStr (books_title b), sql_avg (ratings_of db (books_id b)),
                     sql_count (ratings_of db (books_id b))]"
  have top: "snd (fst (get_rating_analytics (Live db caster))) = map ?rowf ?srt"
    by (simp add: get_rating_analytics_def top_books_form)
  have mem: "b \<in> set (books db) \<and> ?P b" if "b \<in> set ?srt" for b
  proof -
    from that have "b \<in> set (sort_key (leaderboard_key db) (filter ?P (books db)))"
      by (rule in_set_takeD)
    then show ?thesis by simp
  qed
  have rowf: "?rowf b = [PStr (books_title b), PDecimal (mean (ratings_of db (books_id b))),
                         PInt (int (length (ratings_of db (books_id b))))]"
    if "b \<in> set ?srt" for b
    using mem [OF that] by (simp add: sql_avg_mean sql_count_def)
  have len: "length (map ?rowf ?srt) \<le> 10" by simp
  have rows: "\<forall>row \<in> set (map ?rowf ?srt). \<exists>b \<in> set (books db).
           3 \<le> length (ratings_of db (books_id b))
           \<and> row = [PStr (books_title b), PDecimal (mean (ratings_of db (books_id b))),
                     PInt (int (length (ratings_of db (books_id b))))]"
  proof
    fix row assume "row \<in> set (map ?rowf ?srt)"
    then obtain b where b: "b \<in> set ?srt" and row: "row = ?rowf b" by auto
    from mem [OF b] rowf [OF b] row show "\<exists>b \<in> set (books db).
           3 \<le> length (ratings_of db (books_id b))
           \<and> row = [PStr (books_title b), PDecimal (mean (ratings_of db (books_id b))),
                     PInt (int (length (ratings_of db (books_id b))))]"
      by auto
  qed
  have "sorted (map (leaderboard_key db) (sort_key (leaderboard_key db) (filter ?P (books db))))"
    by (rule sorted_sort_key)
  then have "sorted (take 10 (map (leaderboard_key db)
                (sort_key (leaderboard_key db) (filter ?P (books db)))))"
    by (rule sorted_wrt_take)
  then have srt: "sorted (map (leaderboard_key db) ?srt)" by (simp add: take_map)
  have adj: "\<forall>i. Suc i < length (map ?rowf ?srt) \<longrightarrow>
         (\<exists>t a n t' a' n'.
            map ?rowf ?srt ! i = [PStr t, PDecimal a, PInt n]
            \<and> map ?rowf ?srt ! Suc i = [PStr t', PDecimal a', PInt n']
            \<and> (a' < a \<or> (a' = a \<and> n' \<le> n)))"
  proof (intro allI impI)
    fix i assume i: "Suc i < length (map ?rowf ?srt)"
    then have i1: "i < length ?srt" and i2: "Suc i < length ?srt" by simp_all
    let ?b = "?srt ! i" and ?c = "?srt ! Suc i"
    have b: "?b \<in> set ?srt" and c: "?c \<in> set ?srt"
      using i1 i2 nth_mem by blast+
    from srt i1 i2 have "leaderboard_key db ?b \<le> leaderboard_key db ?c"
      by (simp add: sorted_iff_nth_Suc)
    then have ord: "mean (ratings_of db (books_id ?c)) < mean (ratings_of db (books_id ?b))
       \<or> (mean (ratings_of db (books_id ?c)) = mean (ratings_of db (books_id ?b))
           \<and> int (length (ratings_of db (books_id ?c))) \<le> int (length (ratings_of db (books_id ?b))))"
      by (simp add: leaderboard_key_le)
    have "map ?rowf ?srt ! i = ?rowf ?b" "map ?rowf ?srt ! Suc i = ?rowf ?c"
      using i1 i2 by (simp_all only: nth_map)
    with rowf [OF b] rowf [OF c] ord
    show "\<exists>t a n t' a' n'.
            map ?rowf ?srt ! i = [PStr t, PDecimal a, PInt n]
            \<and> map ?rowf ?srt ! Suc i = [PStr t', PDecimal a', PInt n']
            \<and> (a' < a \<or> (a' = a \<and> n' \<le> n))"
      by (metis (no_types, lifting))
  qed
  from len rows adj show ?thesis unfolding top by blast
qed

theorem top_rated_leaderboard_witness:
  "snd (fst (get_rating_analytics (Live leaderboard_db list_caster)))
     = [[PStr ''B'', PDecimal 4.2, PInt 5], [PStr ''C'', PDecimal 3, PInt 3]]
   \<and> length (snd (fst (get_rating_analytics (Live leaderboard_db list_caster)))) \<le> 10"
  using top_rated_leaderboard [of leaderboard_db list_caster]
  by (simp add: leaderboard_eval)

end
